theory Spec2Isabelle
  imports Main
begin

section \<open>pmxbot: the IRC bot of \<^verbatim>\<open>pmxbot/irc.py\<close>\<close>

text \<open>
  A shallow embedding of \<^verbatim>\<open>WarnHistory\<close> and \<^verbatim>\<open>LoggingCommandBot\<close>.
  Mutation of the bot is explicit state passing; every call the bot makes on its
  collaborators (the IRC connection, the reactor's scheduler, the logger, the registered
  handlers, \<^verbatim>\<open>time.sleep\<close>) is recorded, in order, in a list of effects; an exception
  that leaves a method is the \<open>Inl\<close> of its result.
\<close>

subsection \<open>Strings\<close>

text \<open>
  Python strings are modelled as \<open>string\<close>, so the code points are those below 256.
  \<^verbatim>\<open>str.startswith\<close>, \<^verbatim>\<open>str.split(sep, 1)\<close> for a one-character separator,
  \<^verbatim>\<open>str.lstrip()\<close>, \<^verbatim>\<open>str.splitlines()\<close> and \<^verbatim>\<open>sep.join\<close> follow Python 3.
\<close>

definition startswith :: "string \<Rightarrow> string \<Rightarrow> bool" where
  "startswith s p = (take (length p) s = p)"




definition is_linebreak :: "char \<Rightarrow> bool" where
  "is_linebreak c = (let n = of_char c :: nat in
     (10 \<le> n \<and> n \<le> 13) \<or> (28 \<le> n \<and> n \<le> 30) \<or> n = 133)"

fun splitlines_from :: "string \<Rightarrow> string \<Rightarrow> string list" where
  "splitlines_from cur [] = (if cur = [] then [] else [cur])"
| "splitlines_from cur [c] =
     (if is_linebreak c then [cur] else [cur @ [c]])"
| "splitlines_from cur (c # d # cs) =
     (if c = CHR 0x0D \<and> d = CHR 0x0A then cur # splitlines_from [] cs
      else if is_linebreak c then cur # splitlines_from [] (d # cs)
      else splitlines_from (cur @ [c]) (d # cs))"

definition splitlines :: "string \<Rightarrow> string list" where
  "splitlines s = splitlines_from [] s"

fun join_str :: "string \<Rightarrow> string list \<Rightarrow> string" where
  "join_str sep [] = []"
| "join_str sep [x] = x"
| "join_str sep (x # y # ys) = x @ sep @ join_str sep (y # ys)"

subsection \<open>Exceptions\<close>

text \<open>
  The exceptions the bot raises, catches or lets through. \<^verbatim>\<open>except Exception\<close> catches
  every instance of \<^verbatim>\<open>Exception\<close>; \<^verbatim>\<open>SystemExit\<close> and \<^verbatim>\<open>KeyboardInterrupt\<close> derive from
  \<^verbatim>\<open>BaseException\<close> only and pass through such a clause.
\<close>

datatype pyexc =
    MessageTooLong
  | InvalidCharacters
  | ValueError string
  | TypeError string
  | IndexError
  | AttributeError string
  | OtherException string
  | SystemExit
  | KeyboardInterrupt

fun is_Exception :: "pyexc \<Rightarrow> bool" where
  "is_Exception SystemExit = False"
| "is_Exception KeyboardInterrupt = False"
| "is_Exception _ = True"

subsection \<open>Dates, times and the values of \<^verbatim>\<open>when\<close>\<close>

text \<open>
  \<^verbatim>\<open>datetime.time\<close> and \<^verbatim>\<open>datetime.date\<close> are records. \<^verbatim>\<open>datetime.datetime\<close> is a
  subclass of \<^verbatim>\<open>datetime.date\<close>: the record \<open>datetime\<close> extends \<open>date\<close> by the clock
  fields, kept together as one \<open>time\<close> value. The only time zone of the source is
  \<^verbatim>\<open>pytz.UTC\<close>; a \<open>tzinfo\<close> of \<open>None\<close> is a naive value. With these values Python's
  \<^verbatim>\<open>==\<close> on dates, times and date-times is equality of the fields.
\<close>

datatype tz = UTC

record time =
  hour :: nat
  minute :: nat
  second :: nat
  microsecond :: nat
  tzinfo :: "tz option"

record date =
  year :: nat
  month :: nat
  day :: nat

record datetime = date +
  clock :: time

text \<open>\<^verbatim>\<open>datetime.datetime.combine(date, time)\<close>: the day of its first argument, which may
  be any instance of \<^verbatim>\<open>date\<close>, and the clock fields and zone of its second.\<close>

definition combine :: "'a date_scheme \<Rightarrow> time \<Rightarrow> datetime" where
  "combine d t = \<lparr>year = year d, month = month d, day = day d, clock = t\<rparr>"

text \<open>Other Python values that reach the bot as \<^verbatim>\<open>when\<close>; all are hashable, as the
  members of a tuple stored in a set must be.\<close>

datatype pyother = PNone | PInt int | PStr string

datatype when_value =
    WDatetime datetime
  | WDate date
  | WTime time
  | WOther pyother

subsection \<open>Callables, timers and effects\<close>

text \<open>A function object is known by its identity.\<close>

datatype funcref = FuncRef nat

datatype pyval = VStr string | VFunc funcref | VTuple "pyval list"

text \<open>\<^verbatim>\<open>functools.partial(self.background_runner, *args)\<close>: the positional arguments bound
  so far.\<close>

datatype runner = Partial_background_runner "pyval list"

text \<open>The commands of \<^verbatim>\<open>irc.schedule\<close> handed to the reactor.\<close>

datatype command =
    DelayedCommand_at_time datetime runner
  | PeriodicCommandFixedDelay_daily_at time runner

datatype period = Timedelta int | Parse_timedelta string

datatype effect =
    Privmsg string string
  | Action string string
  | Notice string string
  | Join string
  | Sleep nat
  | Execute_every int runner
  | Execute_delayed int runner
  | Schedule_command command
  | Set_keepalive period
  | Invoke string
  | Log_warning string string
  | Log_exception string string
  | Log_info string period
  | Handle_output pyval pyval

subsection \<open>\<^verbatim>\<open>WarnHistory\<close>\<close>

text \<open>
  A \<^verbatim>\<open>WarnHistory\<close> is a dict from nick to the naive UTC date-time of the last warning.
  Such a date-time is modelled by its number of microseconds since the epoch, so that
  the \<^verbatim>\<open>timedelta\<close> \<open>now - last\<close> is the difference of two integers. The reading of the
  clock, \<^verbatim>\<open>datetime.datetime.utcnow()\<close>, is the parameter \<open>now\<close>.
\<close>

type_synonym WarnHistory = "string \<rightharpoonup> int"

definition seconds :: "int \<Rightarrow> int" where
  "seconds n = n * 1000000"

definition warn_every :: int where
  "warn_every = seconds 60"

definition expired :: "int \<Rightarrow> int \<Rightarrow> bool" where
  "expired last_warned now = (now - last_warned > warn_every)"

definition needs_warning :: "int \<Rightarrow> WarnHistory \<Rightarrow> string \<Rightarrow> bool \<times> WarnHistory" where
  "needs_warning now self key =
     (case self key of
        None \<Rightarrow> (True, self(key \<mapsto> now))
      | Some last_warned \<Rightarrow>
          if expired last_warned now then (True, self(key \<mapsto> now)) else (False, self))"

text \<open>The configuration \<^verbatim>\<open>pmxbot.config\<close>, with the options the bot reads.\<close>

datatype keepalive = KNumber int | KStr string | KTimedelta int

record config =
  privacy_warning :: "string option"
  log_channels :: "string list"
  nickserv_password :: "string option"
  TCP_keepalive :: "keepalive option"

text \<open>\<^verbatim>\<open>warn_message\<close> after \<^verbatim>\<open>textwrap.dedent\<close> and \<^verbatim>\<open>lstrip\<close>, with the one field
  \<^verbatim>\<open>{logged_channels_string}\<close> filled in by \<^verbatim>\<open>format\<close>.\<close>

definition warn_message_format :: "string \<Rightarrow> string" where
  "warn_message_format logged_channels_string =
     ''PRIVACY INFORMATION: LOGGING IS ENABLED!!'' @ [CHR 0x0A] @ [CHR 0x0A] @
     ''The following channels are being logged to provide a'' @ [CHR 0x0A] @
     ''convenient, searchable archive of conversation histories:'' @ [CHR 0x0A] @
     logged_channels_string @ [CHR 0x0A]"

definition warn :: "config \<Rightarrow> int \<Rightarrow> WarnHistory \<Rightarrow> string \<Rightarrow> WarnHistory \<times> effect list" where
  "warn cfg now self nick =
     (if privacy_warning cfg = Some ''suppress'' then (self, [])
      else (case needs_warning now self nick of
              (False, self') \<Rightarrow> (self', [])
            | (True, self') \<Rightarrow>
                (let logged_channels_string = join_str '', '' (log_channels cfg);
                     msg = warn_message_format logged_channels_string
                 in (self', map (Notice nick) (splitlines msg)))))"

subsection \<open>The handler registries of \<^verbatim>\<open>pmxbot.core\<close>\<close>

text \<open>
  A join-handler is called as \<^verbatim>\<open>handler.attach(locals())()\<close>; what it sees of the locals
  is the nick and the channel of the event. The call returns or raises. What the handler
  does besides is its own affair and is recorded as the single effect \<open>Invoke\<close>.
\<close>

record locals =
  loc_nick :: string
  loc_channel :: string

datatype outcome = Returned | Raised pyexc

record handler =
  handler_name :: string
  attach_call :: "locals \<Rightarrow> outcome"

record DelayHandler =
  dh_channel :: string
  dh_func :: funcref
  dh_duration :: int
  dh_repeat :: bool

record AtHandler =
  ah_name :: string
  ah_channel :: string
  ah_when :: when_value
  ah_func :: funcref
  ah_doc :: "string option"

text \<open>The registries \<^verbatim>\<open>core.JoinHandler._registry\<close>, \<^verbatim>\<open>core.DelayHandler._registry\<close> and
  \<^verbatim>\<open>core.AtHandler._registry\<close> that \<^verbatim>\<open>irc.py\<close> reads.\<close>

text \<open>Modelled from the spec: \<open>LeaveHandler_registry\<close>, the registered leave-handlers
  among the handler categories of the plugin registry (module \<^verbatim>\<open>core\<close> is not part of the
  sources at hand, and \<^verbatim>\<open>irc.py\<close> never names this registry).\<close>

record registry =
  JoinHandler_registry :: "handler list"
  LeaveHandler_registry :: "handler list"
  DelayHandler_registry :: "DelayHandler list"
  AtHandler_registry :: "AtHandler list"

subsection \<open>\<^verbatim>\<open>LoggingCommandBot\<close>\<close>

text \<open>
  Of the connection, \<^verbatim>\<open>transmit\<close> handles two failures of \<^verbatim>\<open>privmsg\<close> and \<^verbatim>\<open>action\<close>; what
  these two methods raise for a target and a text (\<open>None\<close>: nothing) is the content of
  the record. Elsewhere the bot does not guard its calls on the connection: they are
  recorded as effects, and their failure is outside the model.
\<close>

record connection =
  privmsg_raises :: "string \<Rightarrow> string \<Rightarrow> pyexc option"
  action_raises :: "string \<Rightarrow> string \<Rightarrow> pyexc option"

type_synonym unique_task = "funcref \<times> string \<times> string \<times> when_value \<times> string option"

record bot =
  nickname :: string
  channels :: "string list"
  warn_history :: WarnHistory
  scheduled_tasks :: "unique_task set"
  conn :: "connection option"

record event =
  source_nick :: string
  target :: string
  arguments :: "string list"

text \<open>\<^verbatim>\<open>__init__\<close>: a new bot has warned nobody, has scheduled nothing and has no
  connection yet.\<close>

definition init :: "string \<Rightarrow> string list \<Rightarrow> bot" where
  "init nick chans =
     \<lparr>nickname = nick, channels = chans, warn_history = Map.empty,
      scheduled_tasks = {}, conn = None\<rparr>"





text \<open>\<^verbatim>\<open>background_runner(self, channel, func)\<close> binds exactly two positional arguments;
  any other number is a \<^verbatim>\<open>TypeError\<close> of the call. Its body hands the results of \<open>func\<close>
  to \<^verbatim>\<open>self._handle_output(channel, ...)\<close>, recorded as \<open>Handle_output\<close>.\<close>

fun background_runner :: "pyval list \<Rightarrow> pyexc + effect list" where
  "background_runner [channel, func] = Inr [Handle_output channel func]"
| "background_runner args = Inl (TypeError ''background_runner'')"

text \<open>A timer that fires calls its function without further arguments.\<close>

fun fire :: "runner \<Rightarrow> pyexc + effect list" where
  "fire (Partial_background_runner args) = background_runner args"

definition midnight :: time where
  "midnight = \<lparr>hour = 0, minute = 0, second = 0, microsecond = 0, tzinfo = Some UTC\<rparr>"

text \<open>
  \<^verbatim>\<open>_schedule_at\<close>. The key is built from the value of \<open>when\<close> passed in. The test
  \<^verbatim>\<open>isinstance(when, datetime.date)\<close> holds for a date and, by subclassing, for a
  date-time, and rebinds \<open>when\<close> to \<^verbatim>\<open>combine(when, midnight)\<close> (the first \<open>case\<close>); the
  tests for \<^verbatim>\<open>datetime.datetime\<close> and \<^verbatim>\<open>datetime.time\<close> follow (the second \<open>case\<close>).
\<close>

definition schedule_at ::
  "bot \<Rightarrow> string \<Rightarrow> string \<Rightarrow> when_value \<Rightarrow> funcref \<Rightarrow> string option
     \<Rightarrow> (pyexc + unit) \<times> bot \<times> effect list" where
  "schedule_at self name channel when func doc =
     (let unique_task = (func, name, channel, when, doc) in
      if unique_task \<in> scheduled_tasks self then (Inr (), self, [])
      else
        (let self' = self\<lparr>scheduled_tasks := insert unique_task (scheduled_tasks self)\<rparr>;
             runner_func = Partial_background_runner [VStr channel, VFunc func];
             when' = (case when of
                        WDatetime dt \<Rightarrow> WDatetime (combine dt midnight)
                      | WDate d \<Rightarrow> WDatetime (combine d midnight)
                      | _ \<Rightarrow> when)
         in case when' of
              WDatetime at \<Rightarrow>
                (Inr (), self', [Schedule_command (DelayedCommand_at_time at runner_func)])
            | WTime t \<Rightarrow>
                (Inr (), self',
                 [Schedule_command (PeriodicCommandFixedDelay_daily_at t runner_func)])
            | _ \<Rightarrow> (Inl (ValueError ''when must be datetime, date, or time''), self', [])))"

text \<open>\<^verbatim>\<open>_set_keepalive\<close>; \<^verbatim>\<open>tempora.parse_timedelta\<close> is left symbolic.\<close>

definition set_keepalive :: "config \<Rightarrow> effect list" where
  "set_keepalive cfg =
     (case TCP_keepalive cfg of
        None \<Rightarrow> []
      | Some k \<Rightarrow>
          (let period = (case k of
                           KNumber n \<Rightarrow> Timedelta (seconds n)
                         | KStr s \<Rightarrow> Parse_timedelta s
                         | KTimedelta d \<Rightarrow> Timedelta d)
           in [Log_info ''Setting keepalive for %s'' period, Set_keepalive period]))"

text \<open>The channel-name rule of \<^verbatim>\<open>on_welcome\<close> and \<^verbatim>\<open>on_invite\<close>.\<close>

definition add_prefix :: "string \<Rightarrow> string" where
  "add_prefix channel = (if \<not> startswith channel ''#'' then ''#'' @ channel else channel)"

text \<open>The loop of \<^verbatim>\<open>on_welcome\<close> over the delayed tasks: the runner binds the one
  argument \<open>arguments\<close>, the pair of the channel and the function.\<close>

definition delayed_task :: "DelayHandler \<Rightarrow> effect" where
  "delayed_task h =
     (let arguments = VTuple [VStr (dh_channel h), VFunc (dh_func h)];
          runner = Partial_background_runner [arguments]
      in if dh_repeat h then Execute_every (dh_duration h) runner
         else Execute_delayed (dh_duration h) runner)"

text \<open>The loop of \<^verbatim>\<open>on_welcome\<close> over the at-handlers, each call of \<^verbatim>\<open>_schedule_at\<close> under
  \<^verbatim>\<open>try\<close> ... \<^verbatim>\<open>except Exception\<close>.\<close>

fun schedule_at_handlers :: "bot \<Rightarrow> AtHandler list \<Rightarrow> (pyexc + unit) \<times> bot \<times> effect list" where
  "schedule_at_handlers self [] = (Inr (), self, [])"
| "schedule_at_handlers self (h # hs) =
     (case schedule_at self (ah_name h) (ah_channel h) (ah_when h) (ah_func h) (ah_doc h) of
        (Inr u, self', es) \<Rightarrow>
          (case schedule_at_handlers self' hs of (r, self'', es') \<Rightarrow> (r, self'', es @ es'))
      | (Inl e, self', es) \<Rightarrow>
          if is_Exception e then
            (case schedule_at_handlers self' hs of
               (r, self'', es') \<Rightarrow>
                 (r, self'', es @ Log_exception ''Error scheduling %s'' (ah_name h) # es'))
          else (Inl e, self', es))"

definition on_welcome ::
  "config \<Rightarrow> registry \<Rightarrow> bot \<Rightarrow> connection \<Rightarrow> (pyexc + unit) \<times> bot \<times> effect list" where
  "on_welcome cfg reg self connection =
     (let self1 = self\<lparr>conn := Some connection\<rparr>;
          identify = (case nickserv_password cfg of
                        None \<Rightarrow> []
                      | Some pw \<Rightarrow>
                          if pw = [] then []
                          else [Privmsg ''NickServ'' (''identify '' @ pw)]);
          joins = map (\<lambda>channel. Join (add_prefix channel)) (channels self1);
          delayed = map delayed_task (DelayHandler_registry reg)
      in case schedule_at_handlers self1 (AtHandler_registry reg) of
           (Inl e, self2, es) \<Rightarrow> (Inl e, self2, identify @ joins @ delayed @ es)
         | (Inr u, self2, es) \<Rightarrow>
             (Inr (), self2, identify @ joins @ delayed @ es @ set_keepalive cfg))"

text \<open>The loop of \<^verbatim>\<open>on_join\<close>, which \<^verbatim>\<open>on_leave\<close> repeats: each handler is called under
  \<^verbatim>\<open>try\<close> ... \<^verbatim>\<open>except Exception\<close>, and what is caught is logged.\<close>

fun call_handlers :: "locals \<Rightarrow> handler list \<Rightarrow> (pyexc + unit) \<times> effect list" where
  "call_handlers loc [] = (Inr (), [])"
| "call_handlers loc (h # hs) =
     (case attach_call h loc of
        Returned \<Rightarrow>
          (case call_handlers loc hs of (r, es) \<Rightarrow> (r, Invoke (handler_name h) # es))
      | Raised e \<Rightarrow>
          if is_Exception e then
            (case call_handlers loc hs of
               (r, es) \<Rightarrow>
                 (r, Invoke (handler_name h) # Log_exception ''Error in %s'' (handler_name h) # es))
          else (Inl e, [Invoke (handler_name h)]))"

definition on_join ::
  "config \<Rightarrow> registry \<Rightarrow> int \<Rightarrow> bot \<Rightarrow> event \<Rightarrow> (pyexc + unit) \<times> bot \<times> effect list" where
  "on_join cfg reg now self ev =
     (let nick = source_nick ev;
          channel = target ev
      in case call_handlers \<lparr>loc_nick = nick, loc_channel = channel\<rparr> (JoinHandler_registry reg) of
           (Inl e, es) \<Rightarrow> (Inl e, self, es)
         | (Inr u, es) \<Rightarrow>
             if channel \<notin> set (log_channels cfg) then (Inr (), self, es)
             else if nick = nickname self then (Inr (), self, es)
             else (case warn cfg now (warn_history self) nick of
                     (wh, ws) \<Rightarrow> (Inr (), self\<lparr>warn_history := wh\<rparr>, es @ ws)))"

definition on_leave ::
  "config \<Rightarrow> registry \<Rightarrow> bot \<Rightarrow> event \<Rightarrow> (pyexc + unit) \<times> bot \<times> effect list" where
  "on_leave cfg reg self ev =
     (let nick = source_nick ev;
          channel = target ev
      in case call_handlers \<lparr>loc_nick = nick, loc_channel = channel\<rparr> (JoinHandler_registry reg) of
           (r, es) \<Rightarrow> (r, self, es))"

definition on_invite :: "bot \<Rightarrow> event \<Rightarrow> (pyexc + unit) \<times> bot \<times> effect list" where
  "on_invite self ev =
     (let nick = source_nick ev in
      case arguments ev of
        [] \<Rightarrow> (Inl IndexError, self, [])
      | a # rest \<Rightarrow>
          (let channel = add_prefix a
           in (Inr (), self\<lparr>channels := channels self @ [channel]\<rparr>,
               [Sleep 1, Join channel, Sleep 1,
                Privmsg channel (''You summoned me, master '' @ nick @ ''?'')])))"

text \<open>The reactor delivers join events one after another, each with its own reading of
  the clock; an exception that leaves \<^verbatim>\<open>on_join\<close> ends the run.\<close>

fun on_join_events ::
  "config \<Rightarrow> registry \<Rightarrow> bot \<Rightarrow> (int \<times> event) list \<Rightarrow> (pyexc + unit) \<times> bot \<times> effect list" where
  "on_join_events cfg reg self [] = (Inr (), self, [])"
| "on_join_events cfg reg self ((now, ev) # evs) =
     (case on_join cfg reg now self ev of
        (Inl e, self', es) \<Rightarrow> (Inl e, self', es)
      | (Inr u, self', es) \<Rightarrow>
          (case on_join_events cfg reg self' evs of (r, self'', es') \<Rightarrow> (r, self'', es @ es')))"

subsection \<open>Reading a list of effects\<close>

fun invoked :: "effect list \<Rightarrow> string list" where
  "invoked [] = []"
| "invoked (Invoke n # es) = n # invoked es"
| "invoked (e # es) = invoked es"

fun logged_errors :: "effect list \<Rightarrow> string list" where
  "logged_errors [] = []"
| "logged_errors (Log_exception tmpl n # es) = n # logged_errors es"
| "logged_errors (e # es) = logged_errors es"

fun notices :: "effect list \<Rightarrow> (string \<times> string) list" where
  "notices [] = []"
| "notices (Notice t m # es) = (t, m) # notices es"
| "notices (e # es) = notices es"

fun timers :: "effect list \<Rightarrow> command list" where
  "timers [] = []"
| "timers (Schedule_command cmd # es) = cmd # timers es"
| "timers (e # es) = timers es"

text \<open>Whether the call of a handler raises.\<close>

definition raises :: "locals \<Rightarrow> handler \<Rightarrow> bool" where
  "raises loc h = (attach_call h loc \<noteq> Returned)"



section \<open>The privacy warning\<close>

text \<open>
  C6. \<^verbatim>\<open>needs_warning\<close> answers true exactly when the nick has no entry in the warn
  history or the time since its entry exceeds sixty seconds; a true answer stores the
  present time for the nick, a false answer leaves the history as it was. A nick warned
  at \<open>t0\<close> is not warned again thirty seconds later and is warned again sixty-one
  seconds later.
\<close>

theorem needs_warning_decision:
  "fst (needs_warning now wh I) = (wh I = None \<or> (\<exists>t. wh I = Some t \<and> now - t > seconds 60))
   \<and> (fst (needs_warning now wh I) \<longrightarrow> snd (needs_warning now wh I) = wh(I \<mapsto> now))
   \<and> (\<not> fst (needs_warning now wh I) \<longrightarrow> snd (needs_warning now wh I) = wh)
   \<and> (fst (needs_warning t0 wh I) \<longrightarrow>
        \<not> fst (needs_warning (t0 + seconds 30) (snd (needs_warning t0 wh I)) I) \<and>
        fst (needs_warning (t0 + seconds 61) (snd (needs_warning t0 wh I)) I))"
  by (auto simp: needs_warning_def expired_def warn_every_def seconds_def split: option.splits)

theorem needs_warning_decision_witness:
  "fst (needs_warning 5 Map.empty ''alice'')
   \<and> snd (needs_warning 5 Map.empty ''alice'') = Map.empty(''alice'' \<mapsto> 5)
   \<and> \<not> fst (needs_warning (5 + seconds 30) (snd (needs_warning 5 Map.empty ''alice'')) ''alice'')
   \<and> snd (needs_warning (5 + seconds 30) (Map.empty(''alice'' \<mapsto> 5)) ''alice'') = Map.empty(''alice'' \<mapsto> 5)
   \<and> fst (needs_warning (5 + seconds 61) (snd (needs_warning 5 Map.empty ''alice'')) ''alice'')"
  using needs_warning_decision [of 5 Map.empty "''alice''" 5]
  by (simp add: needs_warning_def expired_def warn_every_def seconds_def)

lemma notices_append: "notices (xs @ ys) = notices xs @ notices ys"
  by (induction xs rule: notices.induct) auto

lemma call_handlers_notices: "notices (snd (call_handlers loc hs)) = []"
  by (induction hs) (auto split: outcome.splits prod.splits)

lemma warn_suppress: "privacy_warning cfg = Some ''suppress'' \<Longrightarrow> warn cfg now wh nick = (wh, [])"
  by (simp add: warn_def)

lemma on_join_suppress:
  assumes "privacy_warning cfg = Some ''suppress''"
  shows "warn_history (fst (snd (on_join cfg reg now self ev))) = warn_history self
         \<and> notices (snd (snd (on_join cfg reg now self ev))) = []"
  using assms
    call_handlers_notices [of "\<lparr>loc_nick = source_nick ev, loc_channel = target ev\<rparr>"
      "JoinHandler_registry reg"]
  by (auto simp: on_join_def Let_def warn_suppress notices_append split: prod.splits sum.splits)

text \<open>
  C7. With \<^verbatim>\<open>privacy warning\<close> set to \<^verbatim>\<open>suppress\<close>, \<^verbatim>\<open>warn\<close> returns at once: it sends no
  notice and hands back the warn history it was given, whatever the nick and the time.
  Hence over any sequence of join events the bot sends no notice and its warn history
  stays as it was.
\<close>

theorem warn_suppressed:
  assumes "privacy_warning cfg = Some ''suppress''"
  shows "warn cfg now wh nick = (wh, [])
         \<and> warn_history (fst (snd (on_join_events cfg reg self evs))) = warn_history self
         \<and> notices (snd (snd (on_join_events cfg reg self evs))) = []"
proof -
  have seq: "warn_history (fst (snd (on_join_events cfg reg self evs))) = warn_history self
         \<and> notices (snd (snd (on_join_events cfg reg self evs))) = []"
  proof (induction evs arbitrary: self)
    case Nil
    show ?case by simp
  next
    case (Cons a evs)
    obtain now ev where a: "a = (now, ev)" by (cases a)
    obtain r self' es where j: "on_join cfg reg now self ev = (r, self', es)"
      by (cases "on_join cfg reg now self ev")
    from on_join_suppress [OF assms, of reg now self ev] j
    have h: "warn_history self' = warn_history self" "notices es = []" by simp_all
    show ?case
    proof (cases r)
      case (Inl e)
      with a j h show ?thesis by simp
    next
      case (Inr u)
      with a j h Cons.IH [of self'] show ?thesis
        by (cases "on_join_events cfg reg self' evs") (simp add: notices_append)
    qed
  qed
  with assms show ?thesis by (simp add: warn_suppress)
qed

theorem warn_suppressed_witness:
  "privacy_warning \<lparr>privacy_warning = Some ''suppress'', log_channels = [''#logged''],
       nickserv_password = None, TCP_keepalive = None\<rparr> = Some ''suppress''
   \<and> warn \<lparr>privacy_warning = Some ''suppress'', log_channels = [''#logged''],
       nickserv_password = None, TCP_keepalive = None\<rparr> 7 Map.empty ''alice'' = (Map.empty, [])
   \<and> notices (snd (snd (on_join_events
        \<lparr>privacy_warning = Some ''suppress'', log_channels = [''#logged''],
          nickserv_password = None, TCP_keepalive = None\<rparr>
        \<lparr>JoinHandler_registry = [], LeaveHandler_registry = [], DelayHandler_registry = [],
          AtHandler_registry = []\<rparr>
        (init ''pmxbot'' [''#logged''])
        [(7, \<lparr>source_nick = ''alice'', target = ''#logged'', arguments = []\<rparr>),
         (seconds 90, \<lparr>source_nick = ''alice'', target = ''#logged'', arguments = []\<rparr>)]))) = []"
  using warn_suppressed [of "\<lparr>privacy_warning = Some ''suppress'', log_channels = [''#logged''],
       nickserv_password = None, TCP_keepalive = None\<rparr>" 7 Map.empty "''alice''"
        "\<lparr>JoinHandler_registry = [], LeaveHandler_registry = [], DelayHandler_registry = [],
          AtHandler_registry = []\<rparr>" "init ''pmxbot'' [''#logged'']"
        "[(7, \<lparr>source_nick = ''alice'', target = ''#logged'', arguments = []\<rparr>),
         (seconds 90, \<lparr>source_nick = ''alice'', target = ''#logged'', arguments = []\<rparr>)]"]
  by simp

section \<open>Fan-out of join and leave events\<close>

lemma invoked_append: "invoked (xs @ ys) = invoked xs @ invoked ys"
  by (induction xs rule: invoked.induct) auto

lemma logged_errors_append: "logged_errors (xs @ ys) = logged_errors xs @ logged_errors ys"
  by (induction xs rule: logged_errors.induct) auto

lemma call_handlers_all:
  assumes "\<forall>h \<in> set hs. \<forall>e. attach_call h loc = Raised e \<longrightarrow> is_Exception e"
  shows "fst (call_handlers loc hs) = Inr ()
         \<and> invoked (snd (call_handlers loc hs)) = map handler_name hs
         \<and> logged_errors (snd (call_handlers loc hs)) = map handler_name (filter (raises loc) hs)"
  using assms
  by (induction hs) (auto simp: raises_def split: outcome.splits prod.splits)

lemma warn_quiet:
  "invoked (snd (warn cfg now wh nick)) = [] \<and> logged_errors (snd (warn cfg now wh nick)) = []"
proof -
  have a: "invoked (map (Notice nick) ls) = []" for ls by (induction ls) auto
  have b: "logged_errors (map (Notice nick) ls) = []" for ls by (induction ls) auto
  show ?thesis by (auto simp: warn_def Let_def a b split: prod.splits bool.splits)
qed

text \<open>
  C1. Whatever the list of registered join-handlers, \<^verbatim>\<open>on_join\<close> calls each of them
  exactly once, in order, also when some of them raise an exception: each exception is
  caught and logged once, under the name of its handler, the handlers after it are still
  called, and \<^verbatim>\<open>on_join\<close> returns normally. An exception is an instance of
  \<^verbatim>\<open>Exception\<close>, which is what the \<^verbatim>\<open>except\<close> clause names.
\<close>

theorem on_join_fan_out:
  assumes "\<forall>h \<in> set (JoinHandler_registry reg). \<forall>e.
             attach_call h \<lparr>loc_nick = source_nick ev, loc_channel = target ev\<rparr> = Raised e
               \<longrightarrow> is_Exception e"
  shows "fst (on_join cfg reg now self ev) = Inr ()
         \<and> invoked (snd (snd (on_join cfg reg now self ev)))
             = map handler_name (JoinHandler_registry reg)
         \<and> logged_errors (snd (snd (on_join cfg reg now self ev)))
             = map handler_name
                 (filter (raises \<lparr>loc_nick = source_nick ev, loc_channel = target ev\<rparr>)
                    (JoinHandler_registry reg))"
proof -
  let ?loc = "\<lparr>loc_nick = source_nick ev, loc_channel = target ev\<rparr>"
  obtain r es where c: "call_handlers ?loc (JoinHandler_registry reg) = (r, es)"
    by (cases "call_handlers ?loc (JoinHandler_registry reg)")
  from call_handlers_all [OF assms] c
  have r: "r = Inr ()" and i: "invoked es = map handler_name (JoinHandler_registry reg)"
    and l: "logged_errors es = map handler_name (filter (raises ?loc) (JoinHandler_registry reg))"
    by simp_all
  obtain wh ws where w: "warn cfg now (warn_history self) (source_nick ev) = (wh, ws)"
    by (cases "warn cfg now (warn_history self) (source_nick ev)")
  from warn_quiet [of cfg now "warn_history self" "source_nick ev"] w
  have q: "invoked ws = []" "logged_errors ws = []" by simp_all
  show ?thesis
    using c r i l w q
    by (simp add: on_join_def Let_def invoked_append logged_errors_append)
qed

text \<open>Three join-handlers of which the second raises: the first and the third are
  called once each, and the one error is logged once.\<close>

theorem on_join_fan_out_witness:
  "attach_call \<lparr>handler_name = ''broken'', attach_call = (\<lambda>loc. Raised (ValueError ''boom''))\<rparr>
       \<lparr>loc_nick = ''alice'', loc_channel = ''#logged''\<rparr> = Raised (ValueError ''boom'')
   \<and> is_Exception (ValueError ''boom'')
   \<and> fst (on_join
        \<lparr>privacy_warning = None, log_channels = [''#logged''], nickserv_password = None,
          TCP_keepalive = None\<rparr>
        \<lparr>JoinHandler_registry =
           [\<lparr>handler_name = ''greet'', attach_call = (\<lambda>loc. Returned)\<rparr>,
            \<lparr>handler_name = ''broken'', attach_call = (\<lambda>loc. Raised (ValueError ''boom''))\<rparr>,
            \<lparr>handler_name = ''tell'', attach_call = (\<lambda>loc. Returned)\<rparr>],
          LeaveHandler_registry = [], DelayHandler_registry = [], AtHandler_registry = []\<rparr>
        0 (init ''pmxbot'' [''#logged''])
        \<lparr>source_nick = ''alice'', target = ''#logged'', arguments = []\<rparr>) = Inr ()
   \<and> invoked (snd (snd (on_join
        \<lparr>privacy_warning = None, log_channels = [''#logged''], nickserv_password = None,
          TCP_keepalive = None\<rparr>
        \<lparr>JoinHandler_registry =
           [\<lparr>handler_name = ''greet'', attach_call = (\<lambda>loc. Returned)\<rparr>,
            \<lparr>handler_name = ''broken'', attach_call = (\<lambda>loc. Raised (ValueError ''boom''))\<rparr>,
            \<lparr>handler_name = ''tell'', attach_call = (\<lambda>loc. Returned)\<rparr>],
          LeaveHandler_registry = [], DelayHandler_registry = [], AtHandler_registry = []\<rparr>
        0 (init ''pmxbot'' [''#logged''])
        \<lparr>source_nick = ''alice'', target = ''#logged'', arguments = []\<rparr>)))
      = [''greet'', ''broken'', ''tell'']
   \<and> logged_errors (snd (snd (on_join
        \<lparr>privacy_warning = None, log_channels = [''#logged''], nickserv_password = None,
          TCP_keepalive = None\<rparr>
        \<lparr>JoinHandler_registry =
           [\<lparr>handler_name = ''greet'', attach_call = (\<lambda>loc. Returned)\<rparr>,
            \<lparr>handler_name = ''broken'', attach_call = (\<lambda>loc. Raised (ValueError ''boom''))\<rparr>,
            \<lparr>handler_name = ''tell'', attach_call = (\<lambda>loc. Returned)\<rparr>],
          LeaveHandler_registry = [], DelayHandler_registry = [], AtHandler_registry = []\<rparr>
        0 (init ''pmxbot'' [''#logged''])
        \<lparr>source_nick = ''alice'', target = ''#logged'', arguments = []\<rparr>)))
      = [''broken'']"
  using on_join_fan_out [of
        "\<lparr>JoinHandler_registry =
           [\<lparr>handler_name = ''greet'', attach_call = (\<lambda>loc. Returned)\<rparr>,
            \<lparr>handler_name = ''broken'', attach_call = (\<lambda>loc. Raised (ValueError ''boom''))\<rparr>,
            \<lparr>handler_name = ''tell'', attach_call = (\<lambda>loc. Returned)\<rparr>],
          LeaveHandler_registry = [], DelayHandler_registry = [], AtHandler_registry = []\<rparr>"
        "\<lparr>source_nick = ''alice'', target = ''#logged'', arguments = []\<rparr>"
        "\<lparr>privacy_warning = None, log_channels = [''#logged''], nickserv_password = None,
          TCP_keepalive = None\<rparr>"
        0 "init ''pmxbot'' [''#logged'']"]
  by (simp add: raises_def)

text \<open>
  C4. On a leave event the claim has every registered leave-handler called, and no
  join-handler. \<^verbatim>\<open>on_leave\<close> walks \<^verbatim>\<open>core.JoinHandler._registry\<close>: with one join-handler
  \<^verbatim>\<open>greet\<close> and one leave-handler \<^verbatim>\<open>farewell\<close> registered, the handler it calls is
  \<^verbatim>\<open>greet\<close>, and \<^verbatim>\<open>farewell\<close> is not called.
\<close>

theorem on_leave_calls_join_handlers:
  "invoked (snd (snd (on_leave
      \<lparr>privacy_warning = None, log_channels = [''#logged''], nickserv_password = None,
        TCP_keepalive = None\<rparr>
      \<lparr>JoinHandler_registry = [\<lparr>handler_name = ''greet'', attach_call = (\<lambda>loc. Returned)\<rparr>],
        LeaveHandler_registry = [\<lparr>handler_name = ''farewell'', attach_call = (\<lambda>loc. Returned)\<rparr>],
        DelayHandler_registry = [], AtHandler_registry = []\<rparr>
      (init ''pmxbot'' [''#logged''])
      \<lparr>source_nick = ''alice'', target = ''#logged'', arguments = []\<rparr>))) = [''greet'']"
  by (simp add: on_leave_def Let_def)

section \<open>Sending\<close>



section \<open>Scheduling\<close>




text \<open>
  C3. The claim has a task whose \<open>when\<close> is a date-time armed at exactly that
  date-time. A date-time is also an instance of \<^verbatim>\<open>datetime.date\<close>, so \<^verbatim>\<open>_schedule_at\<close>
  first replaces it by midnight UTC of its day: a task for 17 May 2024, 12:30 UTC is
  armed for 17 May 2024, 00:00 UTC.
\<close>

theorem schedule_at_datetime_at_midnight:
  "timers (snd (snd (schedule_at (init ''pmxbot'' [''#inane'']) ''launch'' ''#inane''
      (WDatetime \<lparr>year = 2024, month = 5, day = 17,
         clock = \<lparr>hour = 12, minute = 30, second = 0, microsecond = 0, tzinfo = Some UTC\<rparr>\<rparr>)
      (FuncRef 0) None)))
   = [DelayedCommand_at_time
        \<lparr>year = 2024, month = 5, day = 17,
         clock = \<lparr>hour = 0, minute = 0, second = 0, microsecond = 0, tzinfo = Some UTC\<rparr>\<rparr>
        (Partial_background_runner [VStr ''#inane'', VFunc (FuncRef 0)])]"
  by (simp add: schedule_at_def Let_def init_def combine_def midnight_def)

text \<open>The other half of C3 holds: a task whose \<open>when\<close> is a date is armed, once, for
  00:00:00 UTC of that date.\<close>

lemma schedule_at_date:
  assumes "(func, name, channel, WDate d, doc) \<notin> scheduled_tasks self"
  shows "timers (snd (snd (schedule_at self name channel (WDate d) func doc)))
   = [DelayedCommand_at_time
        \<lparr>year = year d, month = month d, day = day d,
         clock = \<lparr>hour = 0, minute = 0, second = 0, microsecond = 0, tzinfo = Some UTC\<rparr>\<rparr>
        (Partial_background_runner [VStr channel, VFunc func])]"
  using assms by (simp add: schedule_at_def Let_def combine_def midnight_def)

text \<open>
  C10. For a task not yet registered whose \<open>when\<close> is none of a date-time, a date or a
  time of day, \<^verbatim>\<open>_schedule_at\<close> raises the \<^verbatim>\<open>ValueError\<close> and arms no timer, and the bot it
  leaves behind has the key of the task in its set of scheduled tasks. A second call
  with the same arguments on that bot returns normally, arms no timer and changes
  nothing: the shape of \<open>when\<close> is not looked at again.
\<close>

theorem schedule_at_invalid_when:
  assumes "(func, name, channel, WOther v, doc) \<notin> scheduled_tasks self"
  shows "fst (schedule_at self name channel (WOther v) func doc)
           = Inl (ValueError ''when must be datetime, date, or time'')
       \<and> snd (snd (schedule_at self name channel (WOther v) func doc)) = []
       \<and> scheduled_tasks (fst (snd (schedule_at self name channel (WOther v) func doc)))
           = insert (func, name, channel, WOther v, doc) (scheduled_tasks self)
       \<and> schedule_at (fst (snd (schedule_at self name channel (WOther v) func doc)))
             name channel (WOther v) func doc
           = (Inr (), fst (snd (schedule_at self name channel (WOther v) func doc)), [])"
  using assms by (simp add: schedule_at_def Let_def)

theorem schedule_at_invalid_when_witness:
  "(FuncRef 0, ''lunch'', ''#inane'', WOther (PStr ''12:00''), None)
     \<notin> scheduled_tasks (init ''pmxbot'' [''#inane''])
   \<and> fst (schedule_at (init ''pmxbot'' [''#inane'']) ''lunch'' ''#inane''
        (WOther (PStr ''12:00'')) (FuncRef 0) None)
      = Inl (ValueError ''when must be datetime, date, or time'')
   \<and> scheduled_tasks (fst (snd (schedule_at (init ''pmxbot'' [''#inane'']) ''lunch'' ''#inane''
        (WOther (PStr ''12:00'')) (FuncRef 0) None)))
      = {(FuncRef 0, ''lunch'', ''#inane'', WOther (PStr ''12:00''), None)}
   \<and> fst (schedule_at
        (fst (snd (schedule_at (init ''pmxbot'' [''#inane'']) ''lunch'' ''#inane''
           (WOther (PStr ''12:00'')) (FuncRef 0) None)))
        ''lunch'' ''#inane'' (WOther (PStr ''12:00'')) (FuncRef 0) None) = Inr ()"
  using schedule_at_invalid_when [of "FuncRef 0" "''lunch''" "''#inane''" "PStr ''12:00''" None
      "init ''pmxbot'' [''#inane'']"]
  by (simp add: init_def)

text \<open>
  C5. The claim has the timer of a delayed or periodic handler call
  \<^verbatim>\<open>background_runner\<close> with two arguments, the channel and the function. \<^verbatim>\<open>on_welcome\<close>
  binds one argument, the pair of the two: for a handler registered for \<^verbatim>\<open>#inane\<close> after
  sixty seconds, the timer is armed with that runner, and when it fires the call of
  \<^verbatim>\<open>background_runner\<close> fails with a \<^verbatim>\<open>TypeError\<close> before the handler runs.
\<close>

theorem on_welcome_delayed_runner:
  "snd (snd (on_welcome
      \<lparr>privacy_warning = None, log_channels = [], nickserv_password = None,
        TCP_keepalive = None\<rparr>
      \<lparr>JoinHandler_registry = [], LeaveHandler_registry = [],
        DelayHandler_registry =
          [\<lparr>dh_channel = ''#inane'', dh_func = FuncRef 0, dh_duration = 60, dh_repeat = False\<rparr>],
        AtHandler_registry = []\<rparr>
      (init ''pmxbot'' [])
      \<lparr>privmsg_raises = (\<lambda>t m. None), action_raises = (\<lambda>t m. None)\<rparr>))
    = [Execute_delayed 60
         (Partial_background_runner [VTuple [VStr ''#inane'', VFunc (FuncRef 0)]])]
   \<and> fire (Partial_background_runner [VTuple [VStr ''#inane'', VFunc (FuncRef 0)]])
       = Inl (TypeError ''background_runner'')"
  by (simp add: on_welcome_def Let_def init_def delayed_task_def set_keepalive_def)

text \<open>The runner that \<^verbatim>\<open>_schedule_at\<close> builds binds the two arguments, and fires well.\<close>

lemma schedule_at_runner_fires:
  "fire (Partial_background_runner [VStr channel, VFunc func])
     = Inr [Handle_output (VStr channel) (VFunc func)]"
  by simp

section \<open>Invitations\<close>

text \<open>
  C9. On an invite event that names a channel without the \<^verbatim>\<open>#\<close> prefix, \<^verbatim>\<open>on_invite\<close>
  adds the prefix, appends the channel so named to the channels of the bot, waits one
  second, joins that channel once, waits one second again, and sends one message, which
  addresses the inviter by nick; the message goes to the channel joined.
\<close>

theorem on_invite_flow:
  assumes "arguments ev = a # rest" and "\<not> startswith a ''#''"
  shows "on_invite self ev =
           (Inr (), self\<lparr>channels := channels self @ [''#'' @ a]\<rparr>,
            [Sleep 1, Join (''#'' @ a), Sleep 1,
             Privmsg (''#'' @ a) (''You summoned me, master '' @ source_nick ev @ ''?'')])"
  using assms by (simp add: on_invite_def add_prefix_def Let_def)

theorem on_invite_flow_witness:
  "arguments \<lparr>source_nick = ''alice'', target = ''pmxbot'', arguments = [''chat'']\<rparr> = [''chat'']
   \<and> \<not> startswith ''chat'' ''#''
   \<and> on_invite (init ''pmxbot'' [''#logged''])
        \<lparr>source_nick = ''alice'', target = ''pmxbot'', arguments = [''chat'']\<rparr> =
      (Inr (), (init ''pmxbot'' [''#logged''])\<lparr>channels := [''#logged'', ''#chat'']\<rparr>,
       [Sleep 1, Join ''#chat'', Sleep 1, Privmsg ''#chat'' ''You summoned me, master alice?''])"
  using on_invite_flow [of "\<lparr>source_nick = ''alice'', target = ''pmxbot'', arguments = [''chat'']\<rparr>"
      "''chat''" "[]" "init ''pmxbot'' [''#logged'']"]
  by (simp add: startswith_def init_def)

end
